theory Spec2Isabelle
  imports Complex_Main "HOL-Library.Signed_Division"
begin

section \<open>Conventions of the embedding\<close>

text \<open>
  The program is C++. A \<^verbatim>\<open>double\<close> is modelled as a \<^typ>\<open>real\<close>: comparisons and
  control flow are those of the source, rounding is not modelled. A
  \<^verbatim>\<open>vector<double>\<close> is a \<^typ>\<open>real list\<close>. An \<^verbatim>\<open>int\<close> is an \<^typ>\<open>int\<close>, a
  \<^verbatim>\<open>size_t\<close> index a \<^typ>\<open>nat\<close>; vector sizes are taken to fit an \<^verbatim>\<open>int\<close>, which
  the source's casts \<^verbatim>\<open>static_cast<int>(n)\<close> presuppose. What the source writes to
  \<^verbatim>\<open>cerr\<close> is returned as a list of lines next to the result; the progress lines on
  \<^verbatim>\<open>cout\<close> are left out.
\<close>

section \<open>Filter\<close>

text \<open>
  The index computation shared by both passes: mirror at the start, mirror at the end,
  then the two safety bounds, in the order of the source. \<open>n\<close> is the vector size.
\<close>

definition reflectIndex :: "int \<Rightarrow> int \<Rightarrow> int" where
  "reflectIndex n idx0 =
     (let idx1 = (if idx0 < 0 then - idx0 else idx0);
          idx2 = (if idx1 \<ge> n then 2 * n - idx1 - 2 else idx1);
          idx3 = (if idx2 < 0 then 0 else idx2);
          idx4 = (if idx3 \<ge> n then n - 1 else idx3)
      in idx4)"

text \<open>The inner loop of \<^verbatim>\<open>boxcarPass\<close>: \<^verbatim>\<open>for (j = -halfWidth; j <= halfWidth; j++) sum += data[idx]\<close>.\<close>

definition boxcarSum :: "real list \<Rightarrow> int \<Rightarrow> nat \<Rightarrow> real" where
  "boxcarSum data halfWidth i =
     fold (\<lambda>j sum. sum + data ! nat (reflectIndex (int (length data)) (int i + j)))
          [- halfWidth .. halfWidth] 0"

definition boxcarPass :: "real list \<Rightarrow> int \<Rightarrow> real list" where
  "boxcarPass data filterSize =
     (if filterSize \<le> 0 \<or> data = [] then data
      else let halfWidth = (filterSize - 1) sdiv 2
           in map (\<lambda>i. boxcarSum data halfWidth i / real_of_int filterSize)
                  [0 ..< length data])"

text \<open>\<^verbatim>\<open>for (pass = 0; pass < numPasses; pass++) result = boxcarPass(result, filterSize)\<close>\<close>

fun boxcarLoop :: "nat \<Rightarrow> int \<Rightarrow> real list \<Rightarrow> real list" where
  "boxcarLoop 0 filterSize result = result"
| "boxcarLoop (Suc k) filterSize result = boxcarLoop k filterSize (boxcarPass result filterSize)"

definition applyBoxcar :: "real list \<Rightarrow> int \<Rightarrow> int \<Rightarrow> real list" where
  "applyBoxcar data filterSize numPasses = boxcarLoop (nat numPasses) filterSize data"

definition sgWarning :: string where
  "sgWarning = ''Warning: SG filter size should be 5, 11, or 17. Using 5.''"

definition sgCoeffs :: "int \<Rightarrow> real list" where
  "sgCoeffs filterSize =
     (if filterSize = 5 then [-3, 12, 17, 12, -3]
      else if filterSize = 11 then [-36, 9, 44, 69, 84, 89, 84, 69, 44, 9, -36]
      else [-21, -6, 7, 18, 27, 34, 39, 42, 43, 42, 39, 34, 27, 18, 7, -6, -21])"

definition sgNorm :: "int \<Rightarrow> real" where
  "sgNorm filterSize =
     (if filterSize = 5 then 35 else if filterSize = 11 then 429 else 323)"

definition sgSum :: "real list \<Rightarrow> real list \<Rightarrow> int \<Rightarrow> nat \<Rightarrow> real" where
  "sgSum data coeffs halfWidth i =
     fold (\<lambda>j sum. sum + coeffs ! nat (j + halfWidth)
                          * data ! nat (reflectIndex (int (length data)) (int i + j)))
          [- halfWidth .. halfWidth] 0"

text \<open>
  \<^verbatim>\<open>sgPass\<close> first replaces a size other than 5, 11, 17 by 5 (with a warning on
  \<^verbatim>\<open>cerr\<close>), and only then tests for empty data.
\<close>

definition sgPass :: "real list \<Rightarrow> int \<Rightarrow> string list \<times> real list" where
  "sgPass data filterSize0 =
     (let bad = (filterSize0 \<noteq> 5 \<and> filterSize0 \<noteq> 11 \<and> filterSize0 \<noteq> 17);
          err = (if bad then [sgWarning] else []);
          filterSize = (if bad then 5 else filterSize0)
      in if data = [] then (err, data)
         else let coeffs = sgCoeffs filterSize;
                  norm = sgNorm filterSize;
                  halfWidth = (filterSize - 1) sdiv 2
              in (err, map (\<lambda>i. sgSum data coeffs halfWidth i / norm) [0 ..< length data]))"

fun sgLoop :: "nat \<Rightarrow> int \<Rightarrow> string list \<times> real list \<Rightarrow> string list \<times> real list" where
  "sgLoop 0 filterSize acc = acc"
| "sgLoop (Suc k) filterSize (err, result) =
     (case sgPass result filterSize of
        (err', result') \<Rightarrow> sgLoop k filterSize (err @ err', result'))"

definition applySavitzkyGolay :: "real list \<Rightarrow> int \<Rightarrow> int \<Rightarrow> string list \<times> real list" where
  "applySavitzkyGolay data filterSize numPasses = sgLoop (nat numPasses) filterSize ([], data)"

section \<open>CubicSpline\<close>

text \<open>
  The object's state: the knot arrays \<^verbatim>\<open>x\<close>, \<^verbatim>\<open>y\<close>, the coefficient arrays
  \<^verbatim>\<open>b\<close>, \<^verbatim>\<open>c\<close>, \<^verbatim>\<open>d\<close> and the flag \<^verbatim>\<open>computed\<close>. The constructor sets the flag to
  false and leaves the vectors empty.
\<close>

record CubicSpline =
  x :: "real list"
  y :: "real list"
  b :: "real list"
  c :: "real list"
  d :: "real list"
  computed :: bool

definition CubicSpline_new :: CubicSpline where
  "CubicSpline_new = \<lparr>x = [], y = [], b = [], c = [], d = [], computed = False\<rparr>"

definition isComputed :: "CubicSpline \<Rightarrow> bool" where
  "isComputed s = computed s"

text \<open>\<^verbatim>\<open>vector::resize(n)\<close>: keeps the first \<open>n\<close> elements and pads with zeros.\<close>

definition resize :: "nat \<Rightarrow> real list \<Rightarrow> real list" where
  "resize n v = take n v @ replicate (n - length v) 0"

text \<open>
  The tridiagonal matrix of \<^verbatim>\<open>compute\<close>, entry by entry as the source fills it (first
  row, interior rows, last row; everything else stays zero), as a list of rows, and the
  right-hand side. \<open>m\<close> is the number of unknowns, \<open>h\<close> the interval widths.
\<close>

definition splineMatrixEntry :: "real list \<Rightarrow> nat \<Rightarrow> nat \<Rightarrow> nat \<Rightarrow> real" where
  "splineMatrixEntry h m i j =
     (if i = 0 then
        (if j = 0 then 2 * (h ! 0 + h ! 1)
         else if j = 1 \<and> m > 1 then h ! 1
         else 0)
      else if i < m - 1 then
        (if j = i - 1 then h ! i
         else if j = i then 2 * (h ! i + h ! (i + 1))
         else if j = i + 1 then h ! (i + 1)
         else 0)
      else
        (if j = m - 2 then h ! (m - 1)
         else if j = m - 1 then 2 * (h ! (m - 1) + h ! m)
         else 0))"

definition splineMatrix :: "real list \<Rightarrow> nat \<Rightarrow> real list list" where
  "splineMatrix h m = map (\<lambda>i. map (\<lambda>j. splineMatrixEntry h m i j) [0 ..< m]) [0 ..< m]"

definition splineRhs :: "real list \<Rightarrow> real list \<Rightarrow> nat \<Rightarrow> real list" where
  "splineRhs h yv m =
     map (\<lambda>i. 6 * ((yv ! (i + 2) - yv ! (i + 1)) / h ! (i + 1) - (yv ! (i + 1) - yv ! i) / h ! i))
         [0 ..< m]"

definition invalidDataError :: string where
  "invalidDataError = ''Error: Invalid data for spline computation''"

definition notIncreasingError :: string where
  "notIncreasingError = ''Error: x values must be strictly increasing''"

text \<open>
  \<^verbatim>\<open>CubicSpline::compute\<close>. The result is what was written to \<^verbatim>\<open>cerr\<close>, the returned
  flag and the object's state after the call. The linear solver is Armadillo's
  \<^verbatim>\<open>solve(A, rhs)\<close>, a library outside the repository: it is the parameter \<open>solve\<close>.
  The statements follow the source's order: the size test, then the assignments to
  \<^verbatim>\<open>x\<close>, \<^verbatim>\<open>y\<close> and the three \<^verbatim>\<open>resize\<close> calls, then the two-point case, then the
  interval widths with their test, then the system and the coefficients.
\<close>

definition compute ::
  "(real list list \<Rightarrow> real list \<Rightarrow> real list) \<Rightarrow> real list \<Rightarrow> real list \<Rightarrow> CubicSpline
     \<Rightarrow> string list \<times> bool \<times> CubicSpline" where
  "compute solve xData yData s =
     (if length xData \<noteq> length yData \<or> length xData < 2 then ([invalidDataError], False, s)
      else
        let n = length xData;
            s1 = s\<lparr>x := xData, y := yData,
                   b := resize n (b s), c := resize n (c s), d := resize n (d s)\<rparr>
        in if n = 2 then
             let b0 = (yData ! 1 - yData ! 0) / (xData ! 1 - xData ! 0)
             in ([], True,
                 s1\<lparr>b := (b s1)[0 := b0, 1 := b0], c := (c s1)[0 := 0, 1 := 0],
                    d := (d s1)[0 := 0, 1 := 0], computed := True\<rparr>)
           else
             let h = map (\<lambda>i. xData ! (i + 1) - xData ! i) [0 ..< n - 1]
             in if list_ex (\<lambda>hi. hi \<le> 0) h then ([notIncreasingError], False, s1)
                else
                  let m = n - 2
                  in if m = 0 then ([], True, s1\<lparr>computed := True\<rparr>)
                     else
                       let M_interior = solve (splineMatrix h m) (splineRhs h yData m);
                           M = [0] @ map (\<lambda>i. M_interior ! i) [0 ..< m] @ [0];
                           dv = map (\<lambda>i. (M ! (i + 1) - M ! i) / (6 * h ! i)) [0 ..< n - 1];
                           cv = map (\<lambda>i. M ! i / 2) [0 ..< n - 1];
                           bv = map (\<lambda>i. (yData ! (i + 1) - yData ! i) / h ! i
                                          - h ! i * (2 * M ! i + M ! (i + 1)) / 6) [0 ..< n - 1]
                       in ([], True,
                           s1\<lparr>b := bv @ [bv ! (n - 2)], c := cv @ [cv ! (n - 2)],
                              d := dv @ [dv ! (n - 2)], computed := True\<rparr>))"

text \<open>The binary search of \<^verbatim>\<open>evaluate\<close>: \<^verbatim>\<open>while (right - left > 1)\<close>.\<close>

function findInterval :: "real list \<Rightarrow> real \<Rightarrow> nat \<Rightarrow> nat \<Rightarrow> nat" where
  "findInterval xs xVal left right =
     (if right - left > 1 then
        let mid = (left + right) div 2
        in if xVal < xs ! mid then findInterval xs xVal left mid
           else findInterval xs xVal mid right
      else left)"
  by pat_completeness auto
termination
  by (relation "measure (\<lambda>(xs, xVal, left, right). right - left)") auto

text \<open>
  The sizes that every object built by the constructor and \<^verbatim>\<open>compute\<close> has: the five
  vectors are equally long, and a computed spline has at least two knots.
\<close>

definition sized :: "CubicSpline \<Rightarrow> bool" where
  "sized s \<longleftrightarrow>
     (computed s \<longrightarrow> 2 \<le> length (x s))
     \<and> length (y s) = length (x s) \<and> length (b s) = length (x s)
     \<and> length (c s) = length (x s) \<and> length (d s) = length (x s)"

text \<open>
  \<^verbatim>\<open>CubicSpline::evaluate\<close>. On a computed spline of at least two knots \<^verbatim>\<open>n - 2\<close>
  does not wrap.
\<close>

definition evaluate :: "CubicSpline \<Rightarrow> real \<Rightarrow> real" where
  "evaluate s xVal =
     (if \<not> computed s \<or> x s = [] then 0
      else
        let n = length (x s);
            i = (if xVal \<le> x s ! 0 then 0
                 else if xVal \<ge> x s ! (n - 1) then n - 2
                 else findInterval (x s) xVal 0 (n - 1));
            dx = xVal - x s ! i
        in y s ! i + b s ! i * dx + c s ! i * dx * dx + d s ! i * dx * dx * dx)"

text \<open>
  The bisection loop of \<^verbatim>\<open>findCrossings\<close>, \<^verbatim>\<open>for (iter = 0; iter < 50; iter++)\<close>. The
  first argument counts the iterations left, so \<^verbatim>\<open>iter == 49\<close> is \<open>k = 0\<close> below. The
  result is what the loop appends to \<^verbatim>\<open>crossings\<close>.
\<close>

fun bisection :: "CubicSpline \<Rightarrow> real \<Rightarrow> nat \<Rightarrow> real \<Rightarrow> real \<Rightarrow> real \<Rightarrow> real \<Rightarrow> real list" where
  "bisection s yVal 0 xLeft xRight fLeft fRight = []"
| "bisection s yVal (Suc k) xLeft xRight fLeft fRight =
     (let xMid = (xLeft + xRight) / 2;
          fMid = evaluate s xMid - yVal
      in if \<bar>fMid\<bar> < 1 / 10 ^ 8 \<or> \<bar>xRight - xLeft\<bar> < 1 / 10 ^ 10 then [xMid]
         else if fLeft * fMid < 0 then
           (if k = 0 then [(xLeft + xMid) / 2]
            else bisection s yVal k xLeft xMid fLeft fMid)
         else
           (if k = 0 then [(xMid + xRight) / 2]
            else bisection s yVal k xMid xRight fMid fRight))"

text \<open>
  The sampling loop of \<^verbatim>\<open>findCrossings\<close>, \<^verbatim>\<open>for (i = 1; i <= numSamples; i++)\<close>, over
  the list of the remaining values of \<^verbatim>\<open>i\<close>.
\<close>

fun sampleLoop ::
  "CubicSpline \<Rightarrow> real \<Rightarrow> real \<Rightarrow> real \<Rightarrow> nat list \<Rightarrow> real \<Rightarrow> real \<Rightarrow> real list \<Rightarrow> real list" where
  "sampleLoop s yVal xMin dx [] prevVal prevX crossings = crossings"
| "sampleLoop s yVal xMin dx (i # rest) prevVal prevX crossings =
     (let xSample = xMin + real i * dx;
          currVal = evaluate s xSample - yVal;
          crossings' = (if prevVal * currVal < 0
                        then crossings @ bisection s yVal 50 prevX xSample prevVal currVal
                        else crossings)
      in sampleLoop s yVal xMin dx rest currVal xSample crossings')"

definition findCrossings :: "CubicSpline \<Rightarrow> real \<Rightarrow> real \<Rightarrow> real \<Rightarrow> real list" where
  "findCrossings s yVal xMin xMax =
     (if \<not> computed s \<or> x s = [] then []
      else
        let numSamples = 1000;
            dx = (xMax - xMin) / real numSamples
        in sampleLoop s yVal xMin dx [1 ..< numSamples + 1] (evaluate s xMin - yVal) xMin [])"

section \<open>Integration\<close>

definition splineNotComputedError :: string where
  "splineNotComputedError = ''Error: Spline not computed''"

text \<open>The values of \<^verbatim>\<open>i\<close> in \<^verbatim>\<open>for (i = start; i < n; i += 2)\<close>.\<close>

definition stepIndices :: "nat \<Rightarrow> nat \<Rightarrow> nat list" where
  "stepIndices start n = filter (\<lambda>i. even (i - start)) [start ..< n]"

text \<open>One composite Simpson estimate with \<open>n\<close> intervals: the body of the loop of \<^verbatim>\<open>newtonCotes\<close>.\<close>

definition simpsonEstimate :: "CubicSpline \<Rightarrow> real \<Rightarrow> real \<Rightarrow> nat \<Rightarrow> real" where
  "simpsonEstimate s a0 b0 n =
     (let h = (b0 - a0) / real n;
          sum0 = evaluate s a0 + evaluate s b0;
          sum1 = fold (\<lambda>i sum. sum + 4 * evaluate s (a0 + real i * h)) (stepIndices 1 n) sum0;
          sum2 = fold (\<lambda>i sum. sum + 2 * evaluate s (a0 + real i * h)) (stepIndices 2 n) sum1
      in (h / 3) * sum2)"

text \<open>
  \<^verbatim>\<open>for (iter = 0; iter < maxIterations; iter++)\<close>: the fifth argument counts the
  iterations left, then come \<^verbatim>\<open>iter\<close>, \<^verbatim>\<open>n\<close>, \<^verbatim>\<open>prevIntegral\<close> and \<^verbatim>\<open>integral\<close>.
\<close>

fun newtonCotesLoop ::
  "CubicSpline \<Rightarrow> real \<Rightarrow> real \<Rightarrow> real \<Rightarrow> nat \<Rightarrow> nat \<Rightarrow> nat \<Rightarrow> real \<Rightarrow> real \<Rightarrow> real" where
  "newtonCotesLoop s a0 b0 tolerance 0 iter n prevIntegral integral = integral"
| "newtonCotesLoop s a0 b0 tolerance (Suc k) iter n prevIntegral integral0 =
     (let integral = simpsonEstimate s a0 b0 n
      in if iter > 0 \<and> \<bar>integral - prevIntegral\<bar> < tolerance then integral
         else newtonCotesLoop s a0 b0 tolerance k (iter + 1) (2 * n) integral integral)"

definition newtonCotes :: "CubicSpline \<Rightarrow> real \<Rightarrow> real \<Rightarrow> real \<Rightarrow> string list \<times> real" where
  "newtonCotes s a0 b0 tolerance =
     (if \<not> isComputed s then ([splineNotComputedError], 0)
      else ([], newtonCotesLoop s a0 b0 tolerance 20 0 2 0 0))"

definition trapezoid :: "CubicSpline \<Rightarrow> real \<Rightarrow> real \<Rightarrow> nat \<Rightarrow> real" where
  "trapezoid s a0 b0 n =
     (let h = (b0 - a0) / real n;
          sum0 = (1 / 2) * (evaluate s a0 + evaluate s b0);
          sum1 = fold (\<lambda>i sum. sum + evaluate s (a0 + real i * h)) [1 ..< n] sum0
      in h * sum1)"

text \<open>
  Row \<open>i\<close> of the Romberg table from row \<open>i - 1\<close>: \<^verbatim>\<open>R[i][0]\<close> is the trapezoid
  estimate, \<^verbatim>\<open>R[i][j] = (4^j R[i][j-1] - R[i-1][j-1]) / (4^j - 1)\<close> for \<open>j = 1..i\<close>.
\<close>

definition rombergRow :: "real list \<Rightarrow> real \<Rightarrow> nat \<Rightarrow> real list" where
  "rombergRow prevRow r0 i =
     fold (\<lambda>j row. row @ [(4 ^ j * row ! (j - 1) - prevRow ! (j - 1)) / (4 ^ j - 1)])
          [1 ..< i + 1] [r0]"

text \<open>
  \<^verbatim>\<open>for (i = 0; i < maxLevel; i++)\<close>: the fifth argument counts the levels left, then
  come \<^verbatim>\<open>i\<close> and row \<open>i - 1\<close> of the table. After the last level the source returns
  \<^verbatim>\<open>R[maxLevel-1][maxLevel-1]\<close>, the last entry of the last row.
\<close>

fun rombergLoop ::
  "CubicSpline \<Rightarrow> real \<Rightarrow> real \<Rightarrow> real \<Rightarrow> nat \<Rightarrow> nat \<Rightarrow> real list \<Rightarrow> real" where
  "rombergLoop s a0 b0 tolerance 0 i prevRow = prevRow ! (i - 1)"
| "rombergLoop s a0 b0 tolerance (Suc k) i prevRow =
     (let n = 2 ^ i;
          row = rombergRow prevRow (trapezoid s a0 b0 n) i
      in if i > 0 \<and> \<bar>row ! i - prevRow ! (i - 1)\<bar> < tolerance then row ! i
         else rombergLoop s a0 b0 tolerance k (i + 1) row)"

definition romberg :: "CubicSpline \<Rightarrow> real \<Rightarrow> real \<Rightarrow> real \<Rightarrow> string list \<times> real" where
  "romberg s a0 b0 tolerance =
     (if \<not> isComputed s then ([splineNotComputedError], 0)
      else ([], rombergLoop s a0 b0 tolerance 15 0 []))"

text \<open>
  \<^verbatim>\<open>Integration::adaptiveHelper\<close> calls itself on both halves with half the tolerance
  and has no other exit than \<^verbatim>\<open>error < tolerance\<close>. It is a partial function: the
  value \<open>None\<close> stands for a call that does not return.
\<close>

partial_function (option) adaptiveHelper ::
  "CubicSpline \<Rightarrow> real \<Rightarrow> real \<Rightarrow> real \<Rightarrow> real \<Rightarrow> real \<Rightarrow> real \<Rightarrow> real option" where
  "adaptiveHelper s a0 b0 tolerance fa fb fmid =
     (let mid = (a0 + b0) / 2;
          h = b0 - a0;
          S_whole = (h / 6) * (fa + 4 * fmid + fb);
          leftMid = (a0 + mid) / 2;
          f_leftMid = evaluate s leftMid;
          S_left = (h / 12) * (fa + 4 * f_leftMid + fmid);
          rightMid = (mid + b0) / 2;
          f_rightMid = evaluate s rightMid;
          S_right = (h / 12) * (fmid + 4 * f_rightMid + fb);
          S_split = S_left + S_right;
          error = \<bar>S_split - S_whole\<bar> / 15
      in if error < tolerance then Some (S_split + (S_split - S_whole) / 15)
         else
           Option.bind (adaptiveHelper s a0 mid (tolerance / 2) fa fmid f_leftMid)
             (\<lambda>left_integral.
                Option.bind (adaptiveHelper s mid b0 (tolerance / 2) fmid fb f_rightMid)
                  (\<lambda>right_integral. Some (left_integral + right_integral))))"



definition adaptive :: "CubicSpline \<Rightarrow> real \<Rightarrow> real \<Rightarrow> real \<Rightarrow> (string list \<times> real) option" where
  "adaptive s a0 b0 tolerance =
     (if \<not> isComputed s then Some ([splineNotComputedError], 0)
      else
        let fa = evaluate s a0;
            fb = evaluate s b0;
            fmid = evaluate s ((a0 + b0) / 2)
        in map_option (\<lambda>v. ([], v)) (adaptiveHelper s a0 b0 tolerance fa fb fmid))"

text \<open>The 32 positive nodes and the weights of the 64-point rule, as the source lists them.\<close>

definition nodes :: "real list" where
  "nodes = [
      0.0243502926634244325089558, 0.0729931217877990394495429, 0.1214628192961205544703765,
      0.1696444204239928180373136, 0.2174236437400070841496487, 0.2646871622087674163739642,
      0.3113228719902109561575127, 0.3572201583376681159504426, 0.4022701579639916036957668,
      0.4463660172534640879849477, 0.4894031457070529574785263, 0.5312794640198945456580139,
      0.5718956462026340342838781, 0.6111553551723932502488530, 0.6489654712546573398577612,
      0.6852363130542332425635584, 0.7198818501716108268489402, 0.7528199072605318966118638,
      0.7839723589433414076102205, 0.8132653151227975597419233, 0.8406292962525803627516915,
      0.8659993981540928197607834, 0.8893154459951141058534040, 0.9105221370785028057563807,
      0.9295691721319395758214902, 0.9464113748584028160624815, 0.9610087996520537189186141,
      0.9733268277899109637418535, 0.9833362538846259569312993, 0.9910133714767443207393824,
      0.9963401167719552793469245, 0.9993050417357721394569056]"

definition weights :: "real list" where
  "weights = [
      0.0486909570091397203833654, 0.0485754674415034269347991, 0.0483447622348029571697695,
      0.0479993885964583077281262, 0.0475401657148303086622822, 0.0469681828162100173253263,
      0.0462847965813144172959532, 0.0454916279274181444797710, 0.0445905581637565630601347,
      0.0435837245293234533768279, 0.0424735151236535890073398, 0.0412625632426235286101563,
      0.0399537411327203413866569, 0.0385501531786156291289625, 0.0370551285402400460404151,
      0.0354722132568823838106931, 0.0338051618371416093915655, 0.0320579283548515535854675,
      0.0302346570724024788679741, 0.0283396726142594832275113, 0.0263774697150546586716918,
      0.0243527025687108733381776, 0.0222701738083832541592983, 0.0201348231535302093723403,
      0.0179517157756973430850453, 0.0157260304760247193219660, 0.0134630478967186425980608,
      0.0111681394601311288185905, 0.0088467598263639477230309, 0.0065044579689783628561174,
      0.0041470332605624676352875, 0.0017832807216964329472961]"

definition gaussLegendre :: "CubicSpline \<Rightarrow> real \<Rightarrow> real \<Rightarrow> string list \<times> real" where
  "gaussLegendre s a0 b0 =
     (if \<not> isComputed s then ([splineNotComputedError], 0)
      else
        let n = 32;
            midpoint = (a0 + b0) / 2;
            halfwidth = (b0 - a0) / 2;
            sum = fold (\<lambda>i sum.
                    let x_pos = midpoint + halfwidth * nodes ! i;
                        x_neg = midpoint - halfwidth * nodes ! i
                    in sum + weights ! i * (evaluate s x_pos + evaluate s x_neg))
                  [0 ..< n] 0
        in ([], halfwidth * sum))"

section \<open>PeakDetector\<close>

text \<open>
  The struct \<^verbatim>\<open>Peak\<close>. Its fields \<^verbatim>\<open>begin\<close> and \<^verbatim>\<open>end\<close> are
  \<open>peak_begin\<close> and \<open>peak_end\<close> here, the other names are the source's.
\<close>

record Peak =
  peak_begin :: real
  peak_end :: real
  location :: real
  maximum :: real
  area :: real
  hydrogens :: int

definition peakDataError :: string where
  "peakDataError = ''Error: Invalid data for peak detection''"

definition peakSizeError :: string where
  "peakSizeError = ''Error: xData and yData size mismatch''"

text \<open>\<^verbatim>\<open>*min_element\<close> and \<^verbatim>\<open>*max_element\<close>, called on a non-empty vector only.\<close>

definition min_element :: "real list \<Rightarrow> real" where
  "min_element v = fold min (tl v) (hd v)"

definition max_element :: "real list \<Rightarrow> real" where
  "max_element v = fold max (tl v) (hd v)"

text \<open>
  The two edge tests of \<^verbatim>\<open>detectPeaks\<close>: each adds its boundary only when the value
  there exceeds the baseline and the crossing list is not empty at that moment.
\<close>

definition addBoundaryCrossings ::
  "CubicSpline \<Rightarrow> real \<Rightarrow> real \<Rightarrow> real \<Rightarrow> real list \<Rightarrow> real list" where
  "addBoundaryCrossings s xMin xMax baseline crossings0 =
     (let yAtMin = evaluate s xMin;
          crossings1 = (if yAtMin > baseline \<and> crossings0 \<noteq> [] then xMin # crossings0
                        else crossings0);
          yAtMax = evaluate s xMax;
          crossings2 = (if yAtMax > baseline \<and> crossings1 \<noteq> [] then crossings1 @ [xMax]
                        else crossings1)
      in crossings2)"

text \<open>
  The scan over the data points, \<^verbatim>\<open>for (j = 0; j < xData.size(); j++)\<close>, on the state
  \<^verbatim>\<open>(maxY, maxX, foundDataPoint)\<close>, which starts as \<^verbatim>\<open>(baseline, xMid, false)\<close>.
  \<open>scanStep\<close> is the body of the loop.
\<close>

definition scanStep ::
  "real list \<Rightarrow> real list \<Rightarrow> real \<Rightarrow> real \<Rightarrow> nat \<Rightarrow> real \<times> real \<times> bool \<Rightarrow> real \<times> real \<times> bool" where
  "scanStep xData yData xBegin xEnd j st =
     (case st of
        (maxY, maxX, foundDataPoint) \<Rightarrow>
          if xData ! j \<ge> xBegin \<and> xData ! j \<le> xEnd then
            (if yData ! j > maxY then (yData ! j, xData ! j, True)
             else (maxY, maxX, foundDataPoint))
          else (maxY, maxX, foundDataPoint))"

definition scanData ::
  "real list \<Rightarrow> real list \<Rightarrow> real \<Rightarrow> real \<Rightarrow> real \<times> real \<times> bool \<Rightarrow> real \<times> real \<times> bool" where
  "scanData xData yData xBegin xEnd start =
     fold (scanStep xData yData xBegin xEnd) [0 ..< length xData] start"

text \<open>
  The body of the loop over the crossing pairs; \<open>None\<close> is a \<^verbatim>\<open>continue\<close>, \<open>Some\<close> the
  peak that is pushed.
\<close>

definition peakOfPair ::
  "CubicSpline \<Rightarrow> real list \<Rightarrow> real list \<Rightarrow> real \<Rightarrow> real \<Rightarrow> real \<Rightarrow> Peak option" where
  "peakOfPair s xData yData baseline xBegin xEnd =
     (let xMid = (xBegin + xEnd) / 2;
          yMid = evaluate s xMid
      in if yMid \<le> baseline then None
         else
           case scanData xData yData xBegin xEnd (baseline, xMid, False) of
             (maxY, maxX, foundDataPoint) \<Rightarrow>
               if \<not> foundDataPoint then None
               else
                 let peak = \<lparr>peak_begin = xBegin, peak_end = xEnd,
                             location = (xBegin + xEnd) / 2, maximum = maxY,
                             area = 0, hydrogens = 0\<rparr>
                 in if \<bar>location peak\<bar> < 2 / 100 then None else Some peak)"

text \<open>
  \<^verbatim>\<open>for (i = 0; i < crossings.size() - 1; i++)\<close>, entered with at least two
  crossings. \<open>pairStep\<close> is one round of the loop on the vector \<^verbatim>\<open>peaks\<close>.
\<close>

definition pairStep ::
  "CubicSpline \<Rightarrow> real list \<Rightarrow> real list \<Rightarrow> real \<Rightarrow> real list \<Rightarrow> nat \<Rightarrow> Peak list \<Rightarrow> Peak list" where
  "pairStep s xData yData baseline crossings i peaks =
     (case peakOfPair s xData yData baseline (crossings ! i) (crossings ! (i + 1)) of
        None \<Rightarrow> peaks
      | Some peak \<Rightarrow> peaks @ [peak])"

definition pairLoop ::
  "CubicSpline \<Rightarrow> real list \<Rightarrow> real list \<Rightarrow> real \<Rightarrow> real list \<Rightarrow> Peak list" where
  "pairLoop s xData yData baseline crossings =
     fold (pairStep s xData yData baseline crossings) [0 ..< length crossings - 1] []"

definition detectPeaks ::
  "CubicSpline \<Rightarrow> real list \<Rightarrow> real list \<Rightarrow> real \<Rightarrow> string list \<times> Peak list" where
  "detectPeaks s xData yData baseline =
     (if \<not> isComputed s \<or> xData = [] \<or> yData = [] then ([peakDataError], [])
      else if length xData \<noteq> length yData then ([peakSizeError], [])
      else
        let xMin = min_element xData;
            xMax = max_element xData;
            crossings = addBoundaryCrossings s xMin xMax baseline
                          (findCrossings s baseline xMin xMax)
        in if length crossings < 2 then ([], [])
           else ([], pairLoop s xData yData baseline (sort crossings)))"

text \<open>
  C's \<^verbatim>\<open>round\<close> (halfway cases away from zero) followed by \<^verbatim>\<open>static_cast<int>\<close>.
  The cast is undefined in C++ when the value does not fit an \<^verbatim>\<open>int\<close> (also for the
  infinity or NaN of a division by zero); the model's value means nothing there.
\<close>

definition roundToInt :: "real \<Rightarrow> int" where
  "roundToInt v = (if v \<ge> 0 then \<lfloor>v + 1 / 2\<rfloor> else - \<lfloor>- v + 1 / 2\<rfloor>)"

text \<open>The first loop of \<^verbatim>\<open>calculateHydrogens\<close>, started with \<^verbatim>\<open>peaks[0].area\<close>.\<close>

definition minAreaOf :: "Peak list \<Rightarrow> real" where
  "minAreaOf peaks =
     fold (\<lambda>peak minArea. if area peak > 0 \<and> area peak < minArea then area peak else minArea)
          peaks (area (peaks ! 0))"

definition calculateHydrogens :: "Peak list \<Rightarrow> Peak list" where
  "calculateHydrogens peaks =
     (if peaks = [] then peaks
      else
        let minArea = minAreaOf peaks
        in map (\<lambda>peak. peak\<lparr>hydrogens := roundToInt (area peak / minArea)\<rparr>) peaks)"

section \<open>Inputs of the examples\<close>

text \<open>A fit of two points never calls the linear solver; the examples pass this one.\<close>

definition noSolve :: "real list list \<Rightarrow> real list \<Rightarrow> real list" where
  "noSolve A rhs = []"

text \<open>The line through \<open>(0, 1.002)\<close> and \<open>(4, -2.998)\<close>, fitted from a new object.\<close>

definition fallingLine :: CubicSpline where
  "fallingLine = snd (snd (compute noSolve [0, 4] [1002 / 1000, - 2998 / 1000] CubicSpline_new))"

text \<open>The constant 1 on \<open>[0, 1]\<close>, fitted from a new object.\<close>

definition flatLine :: CubicSpline where
  "flatLine = snd (snd (compute noSolve [0, 1] [1, 1] CubicSpline_new))"

definition peakOfArea :: "real \<Rightarrow> Peak" where
  "peakOfArea a = \<lparr>peak_begin = 0, peak_end = 1, location = 1 / 2, maximum = 1,
                   area = a, hydrogens = 0\<rparr>"

section \<open>Properties of the filters\<close>

lemma reflectIndex_inside: "0 \<le> idx \<Longrightarrow> idx < n \<Longrightarrow> reflectIndex n idx = idx"
  by (simp add: reflectIndex_def)

lemma reflectIndex_range: "0 < n \<Longrightarrow> 0 \<le> reflectIndex n idx \<and> reflectIndex n idx < n"
  by (simp add: reflectIndex_def Let_def)

lemma boxcarSum_zero_width: "i < length data \<Longrightarrow> boxcarSum data 0 i = data ! i"
  by (simp add: boxcarSum_def reflectIndex_inside)

lemma boxcarPass_size_one: "boxcarPass data 1 = data"
proof (cases "data = []")
  case True
  then show ?thesis by (simp add: boxcarPass_def)
next
  case False
  have "map (\<lambda>i. boxcarSum data 0 i / real_of_int 1) [0 ..< length data]
        = map (\<lambda>i. data ! i) [0 ..< length data]"
    by (rule map_cong) (simp_all add: boxcarSum_zero_width)
  also have "\<dots> = data"
    by (rule map_nth)
  finally show ?thesis
    using False by (simp add: boxcarPass_def)
qed

lemma boxcarLoop_size_one: "boxcarLoop k 1 data = data"
  by (induction k arbitrary: data) (simp_all add: boxcarPass_size_one)

text \<open>
  C8. For every input sequence and every number of passes, the boxcar filter with window
  size 1 returns the input sequence unchanged.
\<close>

theorem applyBoxcar_size_one_identity: "applyBoxcar data 1 numPasses = data"
  by (simp add: applyBoxcar_def boxcarLoop_size_one)

lemma boxcarLoop_nonpositive: "filterSize \<le> 0 \<Longrightarrow> boxcarLoop k filterSize data = data"
  by (induction k arbitrary: data) (simp_all add: boxcarPass_def)

lemma boxcarLoop_empty: "boxcarLoop k filterSize [] = []"
  by (induction k) (simp_all add: boxcarPass_def)

lemma sgPass_empty: "snd (sgPass [] filterSize) = []"
  by (simp add: sgPass_def Let_def)

lemma sgLoop_empty: "snd (sgLoop k filterSize (err, [])) = []"
proof (induction k arbitrary: err)
  case 0
  show ?case by simp
next
  case (Suc k)
  obtain err' where "sgPass [] filterSize = (err', [])"
    using sgPass_empty [of filterSize] by (cases "sgPass [] filterSize") simp
  then show ?case
    using Suc.IH [of "err @ err'"] by simp
qed

lemma sgPass_nonpositive:
  assumes "filterSize \<le> 0"
  shows "sgPass data filterSize = ([sgWarning], snd (sgPass data 5))"
proof -
  from assms have "filterSize \<noteq> 5" "filterSize \<noteq> 11" "filterSize \<noteq> 17"
    by simp_all
  then show ?thesis
    by (simp add: sgPass_def Let_def)
qed

text \<open>
  C5, as the claim states it, fails for the Savitzky-Golay pass: with size 0 the pass
  warns, takes the 5-point kernel and changes the data.
\<close>

theorem sgPass_size_zero_counterexample:
  "sgPass [0, 0, 35, 0, 0] 0 = ([sgWarning], [-6, 12, 17, 12, -6])
   \<and> snd (sgPass [0, 0, 35, 0, 0] 0) \<noteq> [0, 0, 35, 0, 0]"
  by (simp add: sgPass_def sgSum_def sgCoeffs_def sgNorm_def reflectIndex_def upto.simps
      signed_divide_int_def)

text \<open>
  C5, amended. A filter size \<open>\<le> 0\<close> is a no-op for the boxcar filter only: each boxcar
  pass, and any number of passes, returns the input unchanged. The Savitzky-Golay pass
  treats a size \<open>\<le> 0\<close> like every size other than 5, 11, 17: it writes its warning and
  filters with the 5-point kernel. Both filters return an empty sequence empty, for
  every size and every number of passes.
\<close>

theorem degenerate_filter_input:
  "(filterSize \<le> 0 \<longrightarrow>
      boxcarPass data filterSize = data
      \<and> applyBoxcar data filterSize numPasses = data
      \<and> sgPass data filterSize = ([sgWarning], snd (sgPass data 5)))
   \<and> boxcarPass [] filterSize = []
   \<and> applyBoxcar [] filterSize numPasses = []
   \<and> snd (sgPass [] filterSize) = []
   \<and> snd (applySavitzkyGolay [] filterSize numPasses) = []"
proof -
  have "boxcarPass [] filterSize = []"
    by (simp add: boxcarPass_def)
  moreover have "applyBoxcar [] filterSize numPasses = []"
    by (simp add: applyBoxcar_def boxcarLoop_empty)
  moreover have "snd (applySavitzkyGolay [] filterSize numPasses) = []"
    by (simp add: applySavitzkyGolay_def sgLoop_empty)
  moreover have "boxcarPass data filterSize = data" if "filterSize \<le> 0"
    using that by (simp add: boxcarPass_def)
  moreover have "applyBoxcar data filterSize numPasses = data" if "filterSize \<le> 0"
    using that by (simp add: applyBoxcar_def boxcarLoop_nonpositive)
  ultimately show ?thesis
    using sgPass_nonpositive [of filterSize data] sgPass_empty [of filterSize] by blast
qed

theorem degenerate_filter_input_witness:
  "(0::int) \<le> 0
   \<and> boxcarPass [0, 0, 35, 0, 0] 0 = [0, 0, 35, 0, 0]
   \<and> applyBoxcar [0, 0, 35, 0, 0] 0 3 = [0, 0, 35, 0, 0]
   \<and> sgPass [0, 0, 35, 0, 0] 0 = ([sgWarning], snd (sgPass [0, 0, 35, 0, 0] 5))
   \<and> snd (applySavitzkyGolay [] 0 3) = []"
  using degenerate_filter_input [of 0 "[0, 0, 35, 0, 0]" 3] by simp

section \<open>The example splines\<close>

lemma fallingLine_eq:
  "fallingLine = \<lparr>x = [0, 4], y = [501 / 500, - (1499 / 500)], b = [- 1, - 1], c = [0, 0],
                   d = [0, 0], computed = True\<rparr>"
  by (simp add: fallingLine_def compute_def resize_def CubicSpline_new_def Let_def)

lemma flatLine_eq:
  "flatLine = \<lparr>x = [0, 1], y = [1, 1], b = [0, 0], c = [0, 0], d = [0, 0], computed = True\<rparr>"
  by (simp add: flatLine_def compute_def resize_def CubicSpline_new_def Let_def)

lemma findInterval_two: "findInterval xs v 0 (Suc 0) = 0"
  by (subst findInterval.simps) simp

lemma evaluate_fallingLine: "evaluate fallingLine v = 501 / 500 - v"
  by (simp add: evaluate_def fallingLine_eq findInterval_two)

lemma evaluate_flatLine: "evaluate flatLine v = 1"
  by (simp add: evaluate_def flatLine_eq findInterval_two)

lemma sampleLoop_nonneg:
  "0 \<le> prevVal \<Longrightarrow> \<forall>i\<in>set is. 0 \<le> evaluate s (xMin + real i * dx) - yVal \<Longrightarrow> is \<noteq> [] \<Longrightarrow>
   sampleLoop s yVal xMin dx (is @ js) prevVal prevX crossings
     = sampleLoop s yVal xMin dx js (evaluate s (xMin + real (last is) * dx) - yVal)
         (xMin + real (last is) * dx) crossings"
proof (induction "is" arbitrary: prevVal prevX)
  case Nil
  then show ?case by simp
next
  case (Cons i rest)
  have nn: "\<not> prevVal * (evaluate s (xMin + real i * dx) - yVal) < 0"
    using Cons.prems by (simp add: not_less)
  show ?case
  proof (cases "rest = []")
    case True
    then show ?thesis using nn by (simp add: Let_def)
  next
    case False
    then show ?thesis
      using nn Cons.prems Cons.IH [of "evaluate s (xMin + real i * dx) - yVal" "xMin + real i * dx"]
      by (simp add: Let_def)
  qed
qed

lemma sampleLoop_nonpos:
  "prevVal \<le> 0 \<Longrightarrow> \<forall>i\<in>set is. evaluate s (xMin + real i * dx) - yVal \<le> 0 \<Longrightarrow> is \<noteq> [] \<Longrightarrow>
   sampleLoop s yVal xMin dx (is @ js) prevVal prevX crossings
     = sampleLoop s yVal xMin dx js (evaluate s (xMin + real (last is) * dx) - yVal)
         (xMin + real (last is) * dx) crossings"
proof (induction "is" arbitrary: prevVal prevX)
  case Nil
  then show ?case by simp
next
  case (Cons i rest)
  have nn: "\<not> prevVal * (evaluate s (xMin + real i * dx) - yVal) < 0"
    using Cons.prems by (simp add: not_less mult_nonpos_nonpos)
  show ?case
  proof (cases "rest = []")
    case True
    then show ?thesis using nn by (simp add: Let_def)
  next
    case False
    then show ?thesis
      using nn Cons.prems Cons.IH [of "evaluate s (xMin + real i * dx) - yVal" "xMin + real i * dx"]
      by (simp add: Let_def)
  qed
qed

lemma findCrossings_computed:
  assumes "computed s" "x s \<noteq> []"
  shows "findCrossings s yVal xMin xMax =
           sampleLoop s yVal xMin ((xMax - xMin) / 1000) ([1 ..< 1001] @ []) (evaluate s xMin - yVal) xMin []"
proof -
  have "(1000::nat) + 1 = 1001" by simp
  then show ?thesis
    using assms unfolding findCrossings_def Let_def
    by (simp del: upt_Suc upt_rec_numeral)
qed

lemma upt_split_at: "a \<le> k \<Longrightarrow> k < n \<Longrightarrow> [a ..< n] = [a ..< k] @ k # [Suc k ..< n]"
  by (metis le_Suc_ex less_imp_le_nat upt_add_eq_append upt_conv_Cons)

lemma findCrossings_flatLine: "findCrossings flatLine 0 0 1 = []"
proof -
  have "findCrossings flatLine 0 0 1 =
          sampleLoop flatLine 0 0 ((1 - 0) / 1000) ([1 ..< 1001] @ []) (evaluate flatLine 0 - 0) 0 []"
    by (rule findCrossings_computed) (simp_all add: flatLine_eq)
  also have "\<dots> = sampleLoop flatLine 0 0 ((1 - 0) / 1000) []
          (evaluate flatLine (0 + real (last [1 ..< 1001]) * ((1 - 0) / 1000)) - 0)
          (0 + real (last [1 ..< 1001]) * ((1 - 0) / 1000)) []"
    by (rule sampleLoop_nonneg) (simp_all add: evaluate_flatLine del: upt_Suc upt_rec_numeral)
  finally show ?thesis
    by (simp del: upt_Suc upt_rec_numeral)
qed


lemma sampleLoop_all_nonneg:
  assumes "0 \<le> prevVal" "\<forall>i\<in>set is. 0 \<le> evaluate s (xMin + real i * dx) - yVal"
  shows "sampleLoop s yVal xMin dx is prevVal prevX crossings = crossings"
proof (cases "is = []")
  case True
  then show ?thesis by simp
next
  case False
  then show ?thesis
    using sampleLoop_nonneg [OF assms, of "[]" prevX crossings] by simp
qed

lemma sampleLoop_all_nonpos:
  assumes "prevVal \<le> 0" "\<forall>i\<in>set is. evaluate s (xMin + real i * dx) - yVal \<le> 0"
  shows "sampleLoop s yVal xMin dx is prevVal prevX crossings = crossings"
proof (cases "is = []")
  case True
  then show ?thesis by simp
next
  case False
  then show ?thesis
    using sampleLoop_nonpos [OF assms, of "[]" prevX crossings] by simp
qed

lemma bisection_hit:
  "\<bar>evaluate s ((xLeft + xRight) / 2) - yVal\<bar> < 1 / 10 ^ 8 \<Longrightarrow>
   bisection s yVal (Suc k) xLeft xRight fLeft fRight = [(xLeft + xRight) / 2]"
  by (simp add: Let_def)

lemma computed_fallingLine: "computed fallingLine" "x fallingLine = [0, 4]"
  by (simp_all add: fallingLine_eq)

lemma findCrossings_fallingLine: "findCrossings fallingLine 0 0 4 = [501 / 500]"
proof -
  let ?dx = "(4 - 0) / 1000 :: real"
  let ?rest = "[Suc 251 ..< 1001]"
  have split: "[1 ..< 1001] = [1 ..< 251] @ 251 # ?rest"
    by (rule upt_split_at) simp_all
  have "findCrossings fallingLine 0 0 4 =
          sampleLoop fallingLine 0 0 ?dx ([1 ..< 1001] @ []) (evaluate fallingLine 0 - 0) 0 []"
    by (rule findCrossings_computed) (simp_all add: computed_fallingLine)
  also have "\<dots> = sampleLoop fallingLine 0 0 ?dx ([1 ..< 251] @ 251 # ?rest)
                      (evaluate fallingLine 0 - 0) 0 []"
    using split by (simp only: append_Nil2)
  also have "\<dots> = sampleLoop fallingLine 0 0 ?dx (251 # ?rest)
                      (evaluate fallingLine (0 + real (last [1 ..< 251]) * ?dx) - 0)
                      (0 + real (last [1 ..< 251]) * ?dx) []"
  proof (rule sampleLoop_nonneg)
    show "0 \<le> evaluate fallingLine 0 - 0"
      by (simp add: evaluate_fallingLine)
    show "\<forall>i\<in>set [1 ..< 251]. 0 \<le> evaluate fallingLine (0 + real i * ?dx) - 0"
    proof
      fix i assume "i \<in> set [1 ..< 251]"
      then have "i < 251" by (simp only: set_upt atLeastLessThan_iff)
      then have "real i \<le> 250" by linarith
      then show "0 \<le> evaluate fallingLine (0 + real i * ?dx) - 0"
        by (simp add: evaluate_fallingLine)
    qed
    show "[1 ..< 251] \<noteq> []"
      by simp
  qed
  also have "\<dots> = sampleLoop fallingLine 0 0 ?dx (251 # ?rest) (1 / 500) 1 []"
    by (simp add: evaluate_fallingLine del: upt_Suc upt_rec_numeral sampleLoop.simps)
  also have "\<dots> = sampleLoop fallingLine 0 0 ?dx ?rest (- (1 / 500)) (251 / 250) [501 / 500]"
    using bisection_hit [of fallingLine 1 "251 / 250" 0 49 "1 / 500" "- (1 / 500)"]
    by (simp add: evaluate_fallingLine Let_def del: upt_Suc upt_rec_numeral bisection.simps)
  also have "\<dots> = [501 / 500]"
  proof (rule sampleLoop_all_nonpos)
    show "- (1 / 500) \<le> (0::real)"
      by simp
    show "\<forall>i\<in>set ?rest. evaluate fallingLine (0 + real i * ?dx) - 0 \<le> 0"
    proof
      fix i assume "i \<in> set ?rest"
      then have "Suc 251 \<le> i" by (simp only: set_upt atLeastLessThan_iff)
      then have "252 \<le> real i" by linarith
      then show "evaluate fallingLine (0 + real i * ?dx) - 0 \<le> 0"
        by (simp add: evaluate_fallingLine)
    qed
  qed
  finally show ?thesis .
qed


section \<open>Properties of CubicSpline::compute\<close>

text \<open>The sizes are kept by every call of \<^verbatim>\<open>compute\<close>, failed or not.\<close>

lemma sized_new: "sized CubicSpline_new"
  by (simp add: sized_def CubicSpline_new_def)

lemma length_resize: "length (resize n v) = n"
  by (simp add: resize_def)

lemma compute_sized: "sized s \<Longrightarrow> sized (snd (snd (compute solve xData yData s)))"
  unfolding compute_def Let_def
  by (simp add: sized_def length_resize) arith

text \<open>A violation of the size test leaves the object as it was.\<close>

lemma compute_size_violation:
  "length xData \<noteq> length yData \<or> length xData < 2 \<Longrightarrow>
   compute solve xData yData s = ([invalidDataError], False, s)"
  by (simp add: compute_def)

text \<open>
  C1. The claim asks that a call with x not strictly increasing fails and leaves the
  committed state as it was. The code at two such inputs: on the fitted \<open>flatLine\<close>,
  three points with x not increasing make the call fail after it has overwritten the
  knots and resized the coefficients, the flag staying set; and two points with x
  decreasing are accepted.
\<close>

theorem compute_not_increasing_mutates:
  "compute noSolve [0, 2, 1] [5, 5, 5] flatLine =
     ([notIncreasingError], False,
      \<lparr>x = [0, 2, 1], y = [5, 5, 5], b = [0, 0, 0], c = [0, 0, 0], d = [0, 0, 0],
       computed = True\<rparr>)
   \<and> flatLine = \<lparr>x = [0, 1], y = [1, 1], b = [0, 0], c = [0, 0], d = [0, 0], computed = True\<rparr>
   \<and> compute noSolve [4, 0] [0, 1] CubicSpline_new =
     ([], True,
      \<lparr>x = [4, 0], y = [0, 1], b = [- (1 / 4), - (1 / 4)], c = [0, 0], d = [0, 0],
       computed = True\<rparr>)"
  by (simp add: flatLine_eq compute_def resize_def CubicSpline_new_def Let_def)

theorem compute_not_increasing_mutates_witness:
  "\<not> fst (snd (compute noSolve [0, 2, 1] [5, 5, 5] flatLine))
   \<and> snd (snd (compute noSolve [0, 2, 1] [5, 5, 5] flatLine)) \<noteq> flatLine
   \<and> computed (snd (snd (compute noSolve [0, 2, 1] [5, 5, 5] flatLine)))
   \<and> fst (snd (compute noSolve [4, 0] [0, 1] CubicSpline_new))"
  using compute_not_increasing_mutates by (simp add: flatLine_eq)


section \<open>Properties of the integration methods\<close>




lemma computed_flatLine: "computed flatLine" "x flatLine = [0, 1]"
  by (simp_all add: flatLine_eq)




text \<open>
  C7. Each of the four integration methods, called on a spline that is not computed,
  writes the error line and returns exactly 0, for every interval and tolerance.
\<close>

theorem integration_requires_computed_spline:
  "\<not> isComputed s \<Longrightarrow>
     newtonCotes s a0 b0 tolerance = ([splineNotComputedError], 0)
     \<and> romberg s a0 b0 tolerance = ([splineNotComputedError], 0)
     \<and> adaptive s a0 b0 tolerance = Some ([splineNotComputedError], 0)
     \<and> gaussLegendre s a0 b0 = ([splineNotComputedError], 0)"
  by (simp add: newtonCotes_def romberg_def adaptive_def gaussLegendre_def)

theorem integration_requires_computed_spline_witness:
  "\<not> isComputed CubicSpline_new
   \<and> newtonCotes CubicSpline_new 0 1 (1 / 100) = ([splineNotComputedError], 0)
   \<and> romberg CubicSpline_new 0 1 (1 / 100) = ([splineNotComputedError], 0)
   \<and> adaptive CubicSpline_new 0 1 (1 / 100) = Some ([splineNotComputedError], 0)
   \<and> gaussLegendre CubicSpline_new 0 1 = ([splineNotComputedError], 0)"
proof -
  have h: "\<not> isComputed CubicSpline_new"
    by (simp add: isComputed_def CubicSpline_new_def)
  show ?thesis
    using h integration_requires_computed_spline [OF h, of 0 1 "1 / 100"] by simp
qed

section \<open>Properties of PeakDetector\<close>

text \<open>
  C10. \<^verbatim>\<open>calculateHydrogens\<close> keeps the number of peaks and every peak's begin, end,
  location, maximum and area.
\<close>

theorem calculateHydrogens_frame:
  "length (calculateHydrogens peaks) = length peaks
   \<and> map peak_begin (calculateHydrogens peaks) = map peak_begin peaks
   \<and> map peak_end (calculateHydrogens peaks) = map peak_end peaks
   \<and> map location (calculateHydrogens peaks) = map location peaks
   \<and> map maximum (calculateHydrogens peaks) = map maximum peaks
   \<and> map area (calculateHydrogens peaks) = map area peaks"
  by (simp add: calculateHydrogens_def Let_def comp_def)

text \<open>
  When the first peak has a positive area, the divisor is the minimum positive area.
\<close>

lemma Min_insert_above:
  assumes "finite Z" "z \<in> Z" "z \<le> (a::real)"
  shows "Min (insert a Z) = Min Z"
proof -
  have "Z \<noteq> {}" using assms by auto
  then have eq: "Min (insert a Z) = min a (Min Z)"
    using assms by (intro Min_insert) auto
  have "Min Z \<le> z"
    using assms by (intro Min_le) auto
  from this assms(3) have "Min Z \<le> a"
    by (rule order_trans)
  then have "min a (Min Z) = Min Z"
    by (rule min_absorb2)
  with eq show ?thesis by simp
qed

lemma min_fold_positive:
  "0 < m \<Longrightarrow>
   fold (\<lambda>peak minArea. if area peak > 0 \<and> area peak < minArea then area peak else minArea) ps m
     = Min (insert m {a \<in> area ` set ps. 0 < a})"
proof (induction ps arbitrary: m)
  case Nil
  show ?case by simp
next
  case (Cons p ps)
  let ?X = "{a \<in> area ` set ps. 0 < a}"
  have fin: "finite ?X" by simp
  show ?case
  proof (cases "0 < area p \<and> area p < m")
    case True
    have "{a \<in> area ` set (p # ps). 0 < a} = insert (area p) ?X"
      using True by auto
    moreover have "Min (insert m (insert (area p) ?X)) = Min (insert (area p) ?X)"
      using True fin by (intro Min_insert_above [of _ "area p"]) auto
    ultimately show ?thesis
      using True Cons.IH [of "area p"] by simp
  next
    case False
    have "Min (insert m {a \<in> area ` set (p # ps). 0 < a}) = Min (insert m ?X)"
    proof (cases "0 < area p")
      case True
      then have "{a \<in> area ` set (p # ps). 0 < a} = insert (area p) ?X"
        by auto
      moreover have "Min (insert (area p) (insert m ?X)) = Min (insert m ?X)"
        using True False fin by (intro Min_insert_above [of _ m]) auto
      ultimately show ?thesis
        by (simp add: insert_commute)
    next
      case False
      then have "{a \<in> area ` set (p # ps). 0 < a} = ?X"
        by auto
      then show ?thesis by simp
    qed
    moreover have "fold (\<lambda>peak minArea. if area peak > 0 \<and> area peak < minArea then area peak
                            else minArea) (p # ps) m
          = fold (\<lambda>peak minArea. if area peak > 0 \<and> area peak < minArea then area peak
                            else minArea) ps m"
      using False by auto
    ultimately show ?thesis
      using Cons.IH [OF Cons.prems] by simp
  qed
qed

lemma minAreaOf_first_positive:
  assumes "peaks \<noteq> []" "0 < area (peaks ! 0)"
  shows "minAreaOf peaks = Min {a \<in> area ` set peaks. 0 < a}"
proof -
  have "area (peaks ! 0) \<in> {a \<in> area ` set peaks. 0 < a}"
    using assms by (cases peaks) auto
  then have "insert (area (peaks ! 0)) {a \<in> area ` set peaks. 0 < a} = {a \<in> area ` set peaks. 0 < a}"
    by auto
  then show ?thesis
    using min_fold_positive [OF assms(2), of peaks] by (simp add: minAreaOf_def)
qed

text \<open>
  C2. The claim asks for the minimum positive area as divisor whichever peak has a
  nonpositive area. The code at the areas \<open>-1, 2, 4\<close>: the divisor stays at the first
  area \<open>-1\<close>, and the counts are \<open>1, -2, -4\<close>, where division by the minimum
  positive area 2 gives \<open>-1, 1, 2\<close>.
\<close>

theorem calculateHydrogens_first_nonpositive:
  "minAreaOf (map peakOfArea [- 1, 2, 4]) = - 1
   \<and> map hydrogens (calculateHydrogens (map peakOfArea [- 1, 2, 4])) = [1, - 2, - 4]
   \<and> map (\<lambda>peak. roundToInt (area peak / 2)) (map peakOfArea [- 1, 2, 4]) = [- 1, 1, 2]"
  by (simp add: calculateHydrogens_def minAreaOf_def peakOfArea_def roundToInt_def Let_def)

text \<open>
  Two runs of \<^verbatim>\<open>detectPeaks\<close> on \<open>fallingLine\<close> with baseline 0. The only interior
  crossing is at 1.002; the value at the left boundary is above the baseline, so 0 is
  added in front, and the pair \<open>(0, 1.002)\<close> has its midpoint value above the baseline.
  With the data the line was fitted from, the pair gives a peak; with data that lies
  below the baseline it gives none.
\<close>

lemma detectPeaks_fallingLine_own_data:
  "detectPeaks fallingLine [0, 4] [501 / 500, - (1499 / 500)] 0 =
  ([], [\<lparr>peak_begin = 0, peak_end = 501 / 500, location = 501 / 1000, maximum = 501 / 500,
        area = 0, hydrogens = 0\<rparr>])"
  by (simp add: detectPeaks_def isComputed_def min_element_def max_element_def
      findCrossings_fallingLine addBoundaryCrossings_def evaluate_fallingLine pairLoop_def pairStep_def
      peakOfPair_def scanData_def scanStep_def Let_def computed_fallingLine)

lemma detectPeaks_fallingLine_low_data: "detectPeaks fallingLine [0, 4] [-5, -5] 0 = ([], [])"
  by (simp add: detectPeaks_def isComputed_def min_element_def max_element_def
      findCrossings_fallingLine addBoundaryCrossings_def evaluate_fallingLine pairLoop_def pairStep_def
      peakOfPair_def scanData_def scanStep_def Let_def computed_fallingLine)



lemma scanStep_above:
  assumes "baseline \<le> fst st" "snd (snd st) \<longrightarrow> baseline < fst st"
  shows "baseline \<le> fst (scanStep xData yData xBegin xEnd j st)
         \<and> (snd (snd (scanStep xData yData xBegin xEnd j st)) \<longrightarrow>
              baseline < fst (scanStep xData yData xBegin xEnd j st))"
  using assms by (cases st) (auto simp: scanStep_def)

lemma scan_fold_above:
  assumes "baseline \<le> fst st" "snd (snd st) \<longrightarrow> baseline < fst st"
  shows "snd (snd (fold (scanStep xData yData xBegin xEnd) js st)) \<longrightarrow>
           baseline < fst (fold (scanStep xData yData xBegin xEnd) js st)"
  using assms
proof (induction js arbitrary: st)
  case Nil
  then show ?case by simp
next
  case (Cons j js)
  from scanStep_above [OF Cons.prems, of xData yData xBegin xEnd j]
  show ?case
    using Cons.IH [of "scanStep xData yData xBegin xEnd j st"] by simp
qed

lemma scanData_found_above:
  "scanData xData yData xBegin xEnd (baseline, xMid, False) = (maxY, maxX, True) \<Longrightarrow> baseline < maxY"
  using scan_fold_above [of baseline "(baseline, xMid, False)" xData yData xBegin xEnd "[0 ..< length xData]"]
  by (simp add: scanData_def)

lemma peakOfPair_maximum:
  "peakOfPair s xData yData baseline xBegin xEnd = Some p \<Longrightarrow> baseline < maximum p"
  by (auto simp: peakOfPair_def Let_def split: if_splits prod.splits dest: scanData_found_above)

lemma pairLoop_fold_maximum:
  assumes "\<forall>p\<in>set acc. baseline < maximum p"
  shows "\<forall>p\<in>set (fold (pairStep s xData yData baseline crossings) js acc). baseline < maximum p"
  using assms
proof (induction js arbitrary: acc)
  case Nil
  then show ?case by simp
next
  case (Cons i js)
  have "\<forall>p\<in>set (pairStep s xData yData baseline crossings i acc). baseline < maximum p"
    using Cons.prems peakOfPair_maximum
    by (auto simp: pairStep_def split: option.splits)
  from Cons.IH [OF this] show ?case by simp
qed

lemma pairLoop_maximum: "p \<in> set (pairLoop s xData yData baseline crossings) \<Longrightarrow> baseline < maximum p"
  using pairLoop_fold_maximum [of "[]" baseline s xData yData crossings "[0 ..< length crossings - 1]"]
  by (simp add: pairLoop_def)

text \<open>
  What the scan computes: the running maximum is the largest of the baseline and the
  in-range samples, and the flag is set exactly when an in-range sample exceeds the
  baseline. So a pair gives a peak exactly when its midpoint value exceeds the baseline,
  some in-range sample exceeds the baseline and the midpoint is not within 0.02 of 0;
  the peak's maximum is then the largest in-range sample.
\<close>

lemma fold_max_ge: "(m::real) \<le> fold max ys m"
  by (induction ys arbitrary: m) (auto intro: order_trans [OF max.cobounded2])

lemma scanStep_pair:
  "scanStep xData yData xBegin xEnd j (m0, x0, f0) =
     (if xBegin \<le> xData ! j \<and> xData ! j \<le> xEnd \<and> m0 < yData ! j
      then (yData ! j, xData ! j, True) else (m0, x0, f0))"
  by (simp add: scanStep_def)

lemma scan_fold_fst:
  "fst (fold (scanStep xData yData xBegin xEnd) js (m0, x0, f0)) =
     fold max (map (\<lambda>j. yData ! j) (filter (\<lambda>j. xBegin \<le> xData ! j \<and> xData ! j \<le> xEnd) js)) m0"
proof (induction js arbitrary: m0 x0 f0)
  case Nil
  show ?case by simp
next
  case (Cons j js)
  show ?case
    by (simp add: scanStep_pair Cons.IH max_def)
qed

lemma scan_fold_found:
  "snd (snd (fold (scanStep xData yData xBegin xEnd) js (m0, x0, f0))) \<longleftrightarrow>
     f0 \<or> m0 < fst (fold (scanStep xData yData xBegin xEnd) js (m0, x0, f0))"
proof (induction js arbitrary: m0 x0 f0)
  case Nil
  show ?case by simp
next
  case (Cons j js)
  show ?case
  proof (cases "xBegin \<le> xData ! j \<and> xData ! j \<le> xEnd \<and> m0 < yData ! j")
    case True
    have "yData ! j \<le> fst (fold (scanStep xData yData xBegin xEnd) js (yData ! j, xData ! j, True))"
      by (simp add: scan_fold_fst fold_max_ge)
    with True show ?thesis
      by (simp add: scanStep_pair Cons.IH)
  next
    case False
    then have "scanStep xData yData xBegin xEnd j (m0, x0, f0) = (m0, x0, f0)"
      by (simp add: scanStep_pair)
    then show ?thesis
      by (simp add: Cons.IH)
  qed
qed

lemma Max_insert_below:
  assumes "finite Z" "z \<in> Z" "(a::real) \<le> z"
  shows "Max (insert a Z) = Max Z"
proof -
  have "Z \<noteq> {}" using assms by auto
  then have eq: "Max (insert a Z) = max a (Max Z)"
    using assms by (intro Max_insert) auto
  have "z \<le> Max Z"
    using assms by (intro Max_ge) auto
  with assms(3) have "a \<le> Max Z"
    by (rule order_trans)
  then have "max a (Max Z) = Max Z"
    by (rule max_absorb2)
  with eq show ?thesis by simp
qed

lemma fold_max_Max: "fold max ys (m::real) = Max (insert m (set ys))"
  using Max.set_eq_fold [of m ys] by simp

lemma scanData_exact:
  "scanData xData yData xBegin xEnd (baseline, xMid, False) = (maxY, maxX, found) \<Longrightarrow>
     maxY = Max (insert baseline
              ((\<lambda>j. yData ! j) ` {j. j < length xData \<and> xBegin \<le> xData ! j \<and> xData ! j \<le> xEnd}))
     \<and> (found \<longleftrightarrow> (\<exists>j < length xData. xBegin \<le> xData ! j \<and> xData ! j \<le> xEnd \<and> baseline < yData ! j))"
proof -
  assume a: "scanData xData yData xBegin xEnd (baseline, xMid, False) = (maxY, maxX, found)"
  let ?S = "(\<lambda>j. yData ! j) ` {j. j < length xData \<and> xBegin \<le> xData ! j \<and> xData ! j \<le> xEnd}"
  have S: "set (map (\<lambda>j. yData ! j) (filter (\<lambda>j. xBegin \<le> xData ! j \<and> xData ! j \<le> xEnd) [0 ..< length xData])) = ?S"
    by auto
  have fin: "finite ?S" by simp
  have m: "maxY = Max (insert baseline ?S)"
    using a scan_fold_fst [of xData yData xBegin xEnd "[0 ..< length xData]" baseline xMid False]
    unfolding scanData_def fold_max_Max S by simp
  have "found \<longleftrightarrow> baseline < maxY"
    using a scan_fold_found [of xData yData xBegin xEnd "[0 ..< length xData]" baseline xMid False]
    unfolding scanData_def by simp
  also have "\<dots> \<longleftrightarrow> (\<exists>v \<in> insert baseline ?S. baseline < v)"
    unfolding m using fin by (subst Max_gr_iff) auto
  also have "\<dots> \<longleftrightarrow> (\<exists>j < length xData. xBegin \<le> xData ! j \<and> xData ! j \<le> xEnd \<and> baseline < yData ! j)"
    by auto
  finally show ?thesis using m by simp
qed

lemma peakOfPair_emits:
  "peakOfPair s xData yData baseline xBegin xEnd = Some p \<longleftrightarrow>
     baseline < evaluate s ((xBegin + xEnd) / 2)
     \<and> (\<exists>j < length xData. xBegin \<le> xData ! j \<and> xData ! j \<le> xEnd \<and> baseline < yData ! j)
     \<and> \<not> \<bar>(xBegin + xEnd) / 2\<bar> < 2 / 100
     \<and> p = \<lparr>peak_begin = xBegin, peak_end = xEnd, location = (xBegin + xEnd) / 2,
             maximum = Max ((\<lambda>j. yData ! j) `
                         {j. j < length xData \<and> xBegin \<le> xData ! j \<and> xData ! j \<le> xEnd}),
             area = 0, hydrogens = 0\<rparr>"
proof -
  let ?S = "(\<lambda>j. yData ! j) ` {j. j < length xData \<and> xBegin \<le> xData ! j \<and> xData ! j \<le> xEnd}"
  obtain maxY maxX found where
    sc: "scanData xData yData xBegin xEnd (baseline, (xBegin + xEnd) / 2, False) = (maxY, maxX, found)"
    by (cases "scanData xData yData xBegin xEnd (baseline, (xBegin + xEnd) / 2, False)") auto
  note ex = scanData_exact [OF sc]
  have mx: "maxY = Max ?S" if "found"
  proof -
    from that ex obtain j where j: "j < length xData" "xBegin \<le> xData ! j" "xData ! j \<le> xEnd"
      "baseline < yData ! j" by auto
    then have "yData ! j \<in> ?S" by auto
    then have "Max (insert baseline ?S) = Max ?S"
      using j(4) by (intro Max_insert_below [of _ "yData ! j"]) auto
    with ex show ?thesis by simp
  qed
  show ?thesis
    using ex mx by (auto simp: peakOfPair_def Let_def sc)
qed

text \<open>
  C9. Every peak that \<^verbatim>\<open>detectPeaks\<close> returns has its maximum strictly above the
  baseline.
\<close>

theorem detectPeaks_maximum_above_baseline:
  "p \<in> set (snd (detectPeaks s xData yData baseline)) \<Longrightarrow> baseline < maximum p"
  by (auto simp: detectPeaks_def Let_def split: if_splits dest: pairLoop_maximum)

theorem detectPeaks_maximum_above_baseline_witness:
  "\<lparr>peak_begin = 0, peak_end = 501 / 500, location = 501 / 1000, maximum = 501 / 500,
     area = 0, hydrogens = 0\<rparr>
     \<in> set (snd (detectPeaks fallingLine [0, 4] [501 / 500, - (1499 / 500)] 0))
   \<and> (0::real) < maximum \<lparr>peak_begin = 0, peak_end = 501 / 500, location = 501 / 1000,
        maximum = 501 / 500, area = 0, hydrogens = 0\<rparr>"
  using detectPeaks_maximum_above_baseline [of "\<lparr>peak_begin = 0, peak_end = 501 / 500,
     location = 501 / 1000, maximum = 501 / 500, area = 0, hydrogens = 0\<rparr>"
     fallingLine "[0, 4]" "[501 / 500, - (1499 / 500)]" 0]
  by (simp add: detectPeaks_fallingLine_own_data)

text \<open>
  C3. The claim asks that a surviving pair with a sample in \<open>[begin, end]\<close> gives a
  peak, also when no sample exceeds the baseline. The code at such an input: the pair
  \<open>(0, 1.002)\<close> survives the midpoint test, the sample at \<open>x = 0\<close> lies in the range
  with \<open>y = -5\<close> below the baseline, and no peak is returned.
\<close>

theorem detectPeaks_drops_pair_with_low_samples:
  "sort (addBoundaryCrossings fallingLine 0 4 0 (findCrossings fallingLine 0 0 4)) = [0, 501 / 500]
   \<and> evaluate fallingLine ((0 + 501 / 500) / 2) > 0
   \<and> [0, 4] ! 0 \<ge> (0::real) \<and> [0, 4] ! 0 \<le> (501 / 500 :: real)
   \<and> peakOfPair fallingLine [0, 4] [- 5, - 5] 0 0 (501 / 500) = None
   \<and> detectPeaks fallingLine [0, 4] [- 5, - 5] 0 = ([], [])"
  by (simp add: detectPeaks_fallingLine_low_data findCrossings_fallingLine
      addBoundaryCrossings_def evaluate_fallingLine peakOfPair_def scanData_def scanStep_def
      Let_def)

theorem detectPeaks_drops_pair_with_low_samples_witness:
  "snd (detectPeaks fallingLine [0, 4] [- 5, - 5] 0) = []
   \<and> peakOfPair fallingLine [0, 4] [- 5, - 5] 0 0 (501 / 500) = None"
  using detectPeaks_drops_pair_with_low_samples by simp

text \<open>
  C4, as the claim states it, fails: the constant 1 lies above the baseline 0 at both
  boundaries, the interior search finds no crossing, and neither boundary is added; no
  peak is returned.
\<close>

theorem detectPeaks_all_above_baseline_counterexample:
  "evaluate flatLine (min_element [0, 1]) > 0
   \<and> evaluate flatLine (max_element [0, 1]) > 0
   \<and> findCrossings flatLine 0 (min_element [0, 1]) (max_element [0, 1]) = []
   \<and> addBoundaryCrossings flatLine (min_element [0, 1]) (max_element [0, 1]) 0
        (findCrossings flatLine 0 (min_element [0, 1]) (max_element [0, 1])) = []
   \<and> detectPeaks flatLine [0, 1] [1, 1] 0 = ([], [])"
  by (simp add: detectPeaks_def isComputed_def computed_flatLine min_element_def max_element_def
      findCrossings_flatLine addBoundaryCrossings_def evaluate_flatLine Let_def)

text \<open>
  C4, amended. A boundary is added as a crossing only when the signal there exceeds the
  baseline and the crossing list is not empty: with at least one interior crossing,
  \<open>xMin\<close> is put in front when the value at \<open>xMin\<close> exceeds the baseline and \<open>xMax\<close>
  is appended when the value at \<open>xMax\<close> does; with no interior crossing nothing is
  added and \<^verbatim>\<open>detectPeaks\<close> returns no peak. On valid input with an interior
  crossing, the peaks that \<^verbatim>\<open>detectPeaks\<close> returns are those of the consecutive pairs
  of this augmented list, sorted, and none when it has fewer than two entries.
\<close>

theorem boundary_crossings_need_interior_crossing:
  "(crossings \<noteq> [] \<longrightarrow>
      addBoundaryCrossings s xMin xMax baseline crossings =
        (if evaluate s xMin > baseline then [xMin] else []) @ crossings
        @ (if evaluate s xMax > baseline then [xMax] else []))
   \<and> addBoundaryCrossings s xMin xMax baseline [] = []
   \<and> (findCrossings s baseline (min_element xData) (max_element xData) = [] \<longrightarrow>
        snd (detectPeaks s xData yData baseline) = [])
   \<and> (isComputed s \<and> xData \<noteq> [] \<and> yData \<noteq> [] \<and> length xData = length yData
        \<and> findCrossings s baseline (min_element xData) (max_element xData) \<noteq> [] \<longrightarrow>
        snd (detectPeaks s xData yData baseline) =
          (let augmented =
                 (if evaluate s (min_element xData) > baseline then [min_element xData] else [])
                 @ findCrossings s baseline (min_element xData) (max_element xData)
                 @ (if evaluate s (max_element xData) > baseline then [max_element xData] else [])
           in if length augmented < 2 then []
              else pairLoop s xData yData baseline (sort augmented)))"
  by (simp add: addBoundaryCrossings_def detectPeaks_def Let_def)

theorem boundary_crossings_need_interior_crossing_witness:
  "[501 / 500 :: real] \<noteq> []
   \<and> addBoundaryCrossings fallingLine 0 4 0 [501 / 500] = [0, 501 / 500]
   \<and> findCrossings flatLine 0 (min_element [0, 1]) (max_element [0, 1]) = []
   \<and> snd (detectPeaks flatLine [0, 1] [1, 1] 0) = []
   \<and> isComputed fallingLine \<and> [0, 4 :: real] \<noteq> [] \<and> [501 / 500, - (1499 / 500) :: real] \<noteq> []
   \<and> length [0, 4 :: real] = length [501 / 500, - (1499 / 500) :: real]
   \<and> findCrossings fallingLine 0 (min_element [0, 4]) (max_element [0, 4]) = [501 / 500]
   \<and> evaluate fallingLine (min_element [0, 4]) > 0
   \<and> \<not> evaluate fallingLine (max_element [0, 4]) > 0
   \<and> snd (detectPeaks fallingLine [0, 4] [501 / 500, - (1499 / 500)] 0) =
       pairLoop fallingLine [0, 4] [501 / 500, - (1499 / 500)] 0 [0, 501 / 500]
   \<and> pairLoop fallingLine [0, 4] [501 / 500, - (1499 / 500)] 0 [0, 501 / 500] =
       [\<lparr>peak_begin = 0, peak_end = 501 / 500, location = 501 / 1000, maximum = 501 / 500,
         area = 0, hydrogens = 0\<rparr>]"
  using boundary_crossings_need_interior_crossing [of "[501 / 500]" fallingLine 0 4 0 "[]" "[]"]
    boundary_crossings_need_interior_crossing [of "[]" flatLine 0 1 0 "[0, 1]" "[1, 1]"]
    boundary_crossings_need_interior_crossing [of "[]" fallingLine 0 0 0 "[0, 4]" "[501 / 500, - (1499 / 500)]"]
  by (simp add: evaluate_fallingLine findCrossings_flatLine findCrossings_fallingLine
      min_element_def max_element_def isComputed_def computed_fallingLine
      pairLoop_def pairStep_def peakOfPair_def scanData_def scanStep_def Let_def)

end
